theory Spec2Isabelle
  imports Complex_Main "HOL-Library.Multiset" "HOL-Library.AList"
begin

section \<open>Conventions of the embedding\<close>

text \<open>
  The program is TypeScript. Its \<open>number\<close> values are interpreted exactly: counts and
  step indices as \<open>nat\<close> and \<open>int\<close>, measured quantities and ratios as \<open>real\<close>, so
  rounding of IEEE doubles, \<open>NaN\<close> and the infinities are outside the model. Strings are
  \<open>string\<close> (character lists), optional fields are \<open>option\<close> values, a rejected promise
  is the \<open>Inl\<close> of a sum.
\<close>

section \<open>String primitives of the runtime\<close>

text \<open>\<open>String.prototype.includes\<close>: the pattern occurs as a contiguous substring.\<close>

fun startsWith :: "string \<Rightarrow> string \<Rightarrow> bool" where
  "startsWith s [] = True"
| "startsWith [] (p # ps) = False"
| "startsWith (c # cs) (p # ps) = (c = p \<and> startsWith cs ps)"

fun strIncludes :: "string \<Rightarrow> string \<Rightarrow> bool" where
  "strIncludes [] pat = (pat = [])"
| "strIncludes (c # cs) pat = (startsWith (c # cs) pat \<or> strIncludes cs pat)"

text \<open>Case folding of the ASCII letters, as \<open>toLowerCase\<close> and the \<open>i\<close> flag of a regular
  expression do on them; every other character is left alone.\<close>

definition lowerChar :: "char \<Rightarrow> char" where
  "lowerChar c =
     (case map_of (zip ''ABCDEFGHIJKLMNOPQRSTUVWXYZ'' ''abcdefghijklmnopqrstuvwxyz'') c of
        Some d \<Rightarrow> d
      | None \<Rightarrow> c)"

definition toLowerCase :: "string \<Rightarrow> string" where
  "toLowerCase s = map lowerChar s"

text \<open>\<open>/a|b|c/i.test(s)\<close> for literal alternatives: some alternative occurs in \<open>s\<close>,
  letters compared without case.\<close>

definition testAltsCI :: "string list \<Rightarrow> string \<Rightarrow> bool" where
  "testAltsCI alts s = list_ex (\<lambda>a. strIncludes (toLowerCase s) (toLowerCase a)) alts"

text \<open>Decimal rendering of a non-negative integer, as a template literal renders a
  \<open>number\<close> holding one (below \<open>10^21\<close>, where the exponent notation starts).\<close>

definition digitChar :: "nat \<Rightarrow> char" where
  "digitChar d = ''0123456789'' ! d"

function natToString :: "nat \<Rightarrow> string" where
  "natToString n =
     (if n < 10 then [digitChar n] else natToString (n div 10) @ [digitChar (n mod 10)])"
  by pat_completeness auto
termination
  by (relation "measure id") auto

declare natToString.simps [simp del]

section \<open>adminUtils.ts\<close>

subsection \<open>formatTime\<close>

text \<open>On a non-negative whole number of seconds, where \<open>Math.floor(x / 60)\<close> is \<open>div\<close> and
  \<open>%\<close> is \<open>mod\<close>.\<close>

definition formatTime :: "nat \<Rightarrow> string" where
  "formatTime seconds =
     (if seconds < 60 then natToString seconds @ ''s''
      else
        let minutes = seconds div 60;
            remainingSeconds = seconds mod 60
        in if minutes < 60 then natToString minutes @ ''m '' @ natToString remainingSeconds @ ''s''
           else
             let hours = minutes div 60;
                 remainingMinutes = minutes mod 60
             in natToString hours @ ''h '' @ natToString remainingMinutes @ ''m'')"

subsection \<open>getConversionRate and getDropOffRate\<close>

definition getConversionRate :: "real \<Rightarrow> real \<Rightarrow> real" where
  "getConversionRate completed total' =
     (if total' = 0 then 0 else (completed / total') * 100)"

definition getDropOffRate :: "real \<Rightarrow> real \<Rightarrow> real" where
  "getDropOffRate exits entrances =
     (if entrances = 0 then 0 else (exits / entrances) * 100)"

subsection \<open>parseUserAgent\<close>

datatype deviceType = Desktop | Mobile | Tablet

record uaInfo =
  deviceType :: deviceType
  browser :: string
  os :: string

definition parseUserAgent :: "string \<Rightarrow> uaInfo" where
  "parseUserAgent userAgent =
     (let isMobile = testAltsCI [''Mobile'', ''Android'', ''iPhone'', ''iPad''] userAgent;
          isTablet = testAltsCI [''iPad'', ''Tablet''] userAgent
      in \<lparr> deviceType = (if isTablet then Tablet else if isMobile then Mobile else Desktop),
           browser =
             (if strIncludes userAgent ''Chrome'' then ''Chrome''
              else if strIncludes userAgent ''Firefox'' then ''Firefox''
              else if strIncludes userAgent ''Safari'' \<and> \<not> strIncludes userAgent ''Chrome''
                then ''Safari''
              else if strIncludes userAgent ''Edge'' then ''Edge''
              else if strIncludes userAgent ''Opera'' then ''Opera''
              else ''Unknown''),
           os =
             (if strIncludes userAgent ''Windows NT 10'' then ''Windows 10''
              else if strIncludes userAgent ''Windows NT 6.3'' then ''Windows 8.1''
              else if strIncludes userAgent ''Windows NT 6.1'' then ''Windows 7''
              else if strIncludes userAgent ''Windows'' then ''Windows''
              else if strIncludes userAgent ''Mac OS X'' then ''macOS''
              else if strIncludes userAgent ''Linux'' then ''Linux''
              else if strIncludes userAgent ''Android'' then ''Android''
              else if strIncludes userAgent ''iPhone OS'' \<or> strIncludes userAgent ''iOS'' then ''iOS''
              else ''Unknown'') \<rparr>)"

section \<open>types/analytics.ts\<close>

text \<open>A \<open>timestamp\<close> string is represented by the epoch milliseconds that \<open>Date\<close> reads
  from it; \<open>createdAt\<close> likewise. The free-form \<open>formData\<close> is a list of key/value pairs.
  \<open>currentStep\<close> and \<open>timeSpent\<close> are read defensively by the code (\<open>!== undefined\<close>,
  \<open>|| 0\<close>), so a stored document may lack them: they are optional here.\<close>

datatype exitReason = Abandoned | Completed | Ineligible

fun exitReasonName :: "exitReason \<Rightarrow> string" where
  "exitReasonName Abandoned = ''abandoned''"
| "exitReasonName Completed = ''completed''"
| "exitReasonName Ineligible = ''ineligible''"

fun deviceTypeName :: "deviceType \<Rightarrow> string" where
  "deviceTypeName Desktop = ''desktop''"
| "deviceTypeName Mobile = ''mobile''"
| "deviceTypeName Tablet = ''tablet''"

record UserSession =
  sessionId :: string
  timestamp :: int
  userAgent :: string
  currentStep :: "int option"
  formData :: "(string \<times> string) list"
  timeSpent :: "real option"
  exitReason :: "exitReason option"
  createdAt :: int
  updatedAt :: int

datatype action = Enter | Answer | Exit

record StepAnalytics =
  saSessionId :: string
  step :: int
  stepName :: string
  action :: action
  saTimestamp :: int
  answer :: "string option"
  saTimeSpent :: "real option"
  saExitReason :: "exitReason option"
  saCreatedAt :: int

section \<open>admin/sessions/page.tsx\<close>

subsection \<open>The page's own parseUserAgent\<close>

definition parseUserAgentPage :: "string \<Rightarrow> uaInfo" where
  "parseUserAgentPage userAgent' =
     (let isMobile = testAltsCI [''Mobile'', ''Android'', ''iPhone'', ''iPad''] userAgent';
          isTablet = testAltsCI [''iPad'', ''Tablet''] userAgent'
      in \<lparr> deviceType = (if isTablet then Tablet else if isMobile then Mobile else Desktop),
           browser =
             (if strIncludes userAgent' ''Chrome'' then ''Chrome''
              else if strIncludes userAgent' ''Firefox'' then ''Firefox''
              else if strIncludes userAgent' ''Safari'' then ''Safari''
              else if strIncludes userAgent' ''Edge'' then ''Edge''
              else ''Unknown''),
           os =
             (if strIncludes userAgent' ''Windows'' then ''Windows''
              else if strIncludes userAgent' ''Mac'' then ''macOS''
              else if strIncludes userAgent' ''Linux'' then ''Linux''
              else if strIncludes userAgent' ''Android'' then ''Android''
              else if strIncludes userAgent' ''iOS'' then ''iOS''
              else ''Unknown'') \<rparr>)"

subsection \<open>filterAndSortSessions\<close>

text \<open>\<open>SessionWithDetails\<close>: a session extended with the optional classification of its
  user agent.\<close>

record SessionWithDetails = UserSession +
  sdDeviceType :: "deviceType option"
  sdBrowser :: "string option"
  sdOs :: "string option"

datatype sortKey = ByDate | ByDuration | ByStep

datatype sortOrder = Asc | Desc

record pageState =
  sessions :: "SessionWithDetails list"
  filteredSessions :: "SessionWithDetails list"
  searchTerm :: string
  statusFilter :: string
  deviceFilter :: string
  sortBy :: sortKey
  sortOrder :: sortOrder

text \<open>\<open>Array.prototype.sort\<close> with a comparator is a stable sort: an element is placed
  before the first one it does not compare greater than, and elements that compare equal
  keep the order they came in.\<close>

fun insertCmp :: "('a \<Rightarrow> 'a \<Rightarrow> real) \<Rightarrow> 'a \<Rightarrow> 'a list \<Rightarrow> 'a list" where
  "insertCmp cmp x [] = [x]"
| "insertCmp cmp x (y # ys) =
     (if cmp x y \<le> 0 then x # y # ys else y # insertCmp cmp x ys)"

definition sortCmp :: "('a \<Rightarrow> 'a \<Rightarrow> real) \<Rightarrow> 'a list \<Rightarrow> 'a list" where
  "sortCmp cmp xs = foldr (insertCmp cmp) xs []"

text \<open>\<open>a.timeSpent || 0\<close>: an absent or zero duration reads as 0.\<close>

definition duration :: "'a SessionWithDetails_scheme \<Rightarrow> real" where
  "duration s = (case timeSpent s of None \<Rightarrow> 0 | Some t \<Rightarrow> t)"

text \<open>The comparator of the sort. A difference with an absent \<open>currentStep\<close> is \<open>NaN\<close>,
  which the sort reads as 0.\<close>

definition comparison :: "sortKey \<Rightarrow> SessionWithDetails \<Rightarrow> SessionWithDetails \<Rightarrow> real" where
  "comparison key a b =
     (case key of
        ByDate \<Rightarrow> real_of_int (timestamp a) - real_of_int (timestamp b)
      | ByDuration \<Rightarrow> duration a - duration b
      | ByStep \<Rightarrow>
          (case (currentStep a, currentStep b) of
             (Some x, Some y) \<Rightarrow> real_of_int x - real_of_int y
           | _ \<Rightarrow> 0))"

definition sessionComparator ::
  "sortKey \<Rightarrow> sortOrder \<Rightarrow> SessionWithDetails \<Rightarrow> SessionWithDetails \<Rightarrow> real" where
  "sessionComparator key ord a b =
     (if ord = Desc then - comparison key a b else comparison key a b)"

definition optIncludesLower :: "string option \<Rightarrow> string \<Rightarrow> bool" where
  "optIncludesLower field term' =
     (case field of None \<Rightarrow> False | Some f \<Rightarrow> strIncludes (toLowerCase f) (toLowerCase term'))"

definition matchesFilters :: "pageState \<Rightarrow> SessionWithDetails \<Rightarrow> bool" where
  "matchesFilters st session =
     (let matchesSearch =
            (strIncludes (toLowerCase (sessionId session)) (toLowerCase (searchTerm st)) \<or>
             strIncludes (toLowerCase (userAgent session)) (toLowerCase (searchTerm st)) \<or>
             optIncludesLower (sdBrowser session) (searchTerm st) \<or>
             optIncludesLower (sdOs session) (searchTerm st));
          matchesStatus =
            (statusFilter st = ''all'' \<or>
             map_option exitReasonName (exitReason session) = Some (statusFilter st));
          matchesDevice =
            (deviceFilter st = ''all'' \<or>
             map_option deviceTypeName (sdDeviceType session) = Some (deviceFilter st))
      in matchesSearch \<and> matchesStatus \<and> matchesDevice)"

definition filterAndSortSessions :: "pageState \<Rightarrow> pageState" where
  "filterAndSortSessions st =
     (let filtered = filter (matchesFilters st) (sessions st);
          sorted' = sortCmp (sessionComparator (sortBy st) (sortOrder st)) filtered
      in st\<lparr>filteredSessions := sorted'\<rparr>)"

text \<open>The list the page shows once the user has picked the duration key and an order:
  the state change re-runs \<open>filterAndSortSessions\<close>.\<close>

definition sortedByDuration :: "sortOrder \<Rightarrow> pageState \<Rightarrow> SessionWithDetails list" where
  "sortedByDuration ord st =
     filteredSessions (filterAndSortSessions (st\<lparr>sortBy := ByDuration, sortOrder := ord\<rparr>))"

subsection \<open>Sample sessions\<close>

definition sessA :: SessionWithDetails where
  "sessA = \<lparr> sessionId = ''a'', timestamp = 0, userAgent = ''ua'', currentStep = Some 1,
     formData = [], timeSpent = Some 5, exitReason = None, createdAt = 0, updatedAt = 0,
     sdDeviceType = Some Desktop, sdBrowser = Some ''Chrome'', sdOs = Some ''Linux'' \<rparr>"

definition sessB :: SessionWithDetails where
  "sessB = sessA\<lparr>sessionId := ''b''\<rparr>"

definition sessC :: SessionWithDetails where
  "sessC = sessA\<lparr>sessionId := ''c'', timeSpent := Some 7\<rparr>"

definition pageOf :: "SessionWithDetails list \<Rightarrow> pageState" where
  "pageOf xs = \<lparr> sessions = xs, filteredSessions = [], searchTerm = [], statusFilter = ''all'',
     deviceFilter = ''all'', sortBy = ByDate, sortOrder = Desc \<rparr>"

section \<open>utils/analyticsQueries.ts\<close>

text \<open>The store is reached through \<open>getDocs\<close>, which either rejects or delivers the
  documents the query selects. The Query Layer does not catch: a rejection is the result.\<close>

datatype storeError = StoreError

datatype sessionsQuery = AllSessions | CreatedBetween int int

definition runSessionsQuery :: "UserSession list \<Rightarrow> sessionsQuery \<Rightarrow> storeError + UserSession list" where
  "runSessionsQuery docs q =
     (case q of
        AllSessions \<Rightarrow> Inr docs
      | CreatedBetween startDate endDate \<Rightarrow>
          Inr (filter (\<lambda>d. startDate \<le> createdAt d \<and> createdAt d \<le> endDate) docs))"

subsection \<open>getAnalyticsSummary\<close>

record AnalyticsSummary =
  totalSessions :: nat
  completedSessions :: nat
  abandonedSessions :: nat
  averageTimeSpent :: real
  conversionRate :: real
  dropOffByStep :: "(int \<times> nat) list"

text \<open>\<open>dropOffByStep[k] = (dropOffByStep[k] || 0) + 1\<close> on a dictionary kept as an
  association list.\<close>

definition bumpStep :: "(int \<times> nat) list \<Rightarrow> int \<Rightarrow> (int \<times> nat) list" where
  "bumpStep d k = AList.update k ((case map_of d k of None \<Rightarrow> 0 | Some c \<Rightarrow> c) + 1) d"

definition summarize :: "UserSession list \<Rightarrow> AnalyticsSummary" where
  "summarize docs =
     (let total' = length docs;
          completed = length (filter (\<lambda>s. exitReason s = Some Completed) docs);
          abandoned = length (filter (\<lambda>s. exitReason s = Some Abandoned) docs);
          totalTime =
            foldl (\<lambda>sum session. sum + (case timeSpent session of None \<Rightarrow> 0 | Some t \<Rightarrow> t)) 0 docs;
          average = (if total' > 0 then totalTime / real total' else 0);
          conversion = (if total' > 0 then (real completed / real total') * 100 else 0);
          dropOff =
            foldl (\<lambda>d session.
                     (case (exitReason session, currentStep session) of
                        (Some Abandoned, Some k) \<Rightarrow> bumpStep d k
                      | _ \<Rightarrow> d)) [] docs
      in \<lparr> totalSessions = total', completedSessions = completed,
           abandonedSessions = abandoned, averageTimeSpent = average,
           conversionRate = conversion, dropOffByStep = dropOff \<rparr>)"

definition summaryQuery :: "int option \<Rightarrow> int option \<Rightarrow> sessionsQuery" where
  "summaryQuery startDate endDate =
     (case (startDate, endDate) of
        (Some s, Some e) \<Rightarrow> CreatedBetween s e
      | _ \<Rightarrow> AllSessions)"

definition getAnalyticsSummary ::
  "(sessionsQuery \<Rightarrow> storeError + UserSession list) \<Rightarrow> int option \<Rightarrow> int option \<Rightarrow>
     storeError + AnalyticsSummary" where
  "getAnalyticsSummary getDocs startDate endDate =
     (case getDocs (summaryQuery startDate endDate) of
        Inl err \<Rightarrow> Inl err
      | Inr docs \<Rightarrow> Inr (summarize docs))"

subsection \<open>getStepStats\<close>

record StepStats =
  stepNumber :: int
  ssStepName :: string
  entrances :: nat
  exits :: nat
  ssAverageTimeSpent :: real
  dropOffRate :: real

text \<open>The entries of \<open>stepData\<close>, a dictionary keyed by the step number.\<close>

record StepAcc =
  accStepNumber :: int
  accStepName :: string
  accEntrances :: nat
  accExits :: nat
  totalTimeSpent :: real
  timeSpentCount :: nat

text \<open>The body of the \<open>forEach\<close>: create the entry on first sight of the step, count the
  action, and add the time when \<open>analytics.timeSpent\<close> is truthy: present and not 0.\<close>

definition recordEvent :: "(int \<times> StepAcc) list \<Rightarrow> StepAnalytics \<Rightarrow> (int \<times> StepAcc) list" where
  "recordEvent stepData analytics =
     (let stepNum = step analytics;
          acc0 = (case map_of stepData stepNum of
                    None \<Rightarrow> \<lparr> accStepNumber = stepNum, accStepName = stepName analytics,
                              accEntrances = 0, accExits = 0, totalTimeSpent = 0,
                              timeSpentCount = 0 \<rparr>
                  | Some acc \<Rightarrow> acc);
          acc1 = (if action analytics = Enter then acc0\<lparr>accEntrances := accEntrances acc0 + 1\<rparr>
                  else if action analytics = Exit then acc0\<lparr>accExits := accExits acc0 + 1\<rparr>
                  else acc0);
          acc2 = (case saTimeSpent analytics of
                    None \<Rightarrow> acc1
                  | Some t \<Rightarrow>
                      if t \<noteq> 0
                      then acc1\<lparr>totalTimeSpent := totalTimeSpent acc1 + t,
                                timeSpentCount := timeSpentCount acc1 + 1\<rparr>
                      else acc1)
      in AList.update stepNum acc2 stepData)"

text \<open>\<open>Object.values\<close>: the values of the array-index keys in ascending order, then the
  values of the other keys in the order they were created.\<close>

definition isArrayIndex :: "int \<Rightarrow> bool" where
  "isArrayIndex k = (0 \<le> k \<and> k < 4294967295)"

definition objectValues :: "(int \<times> 'v) list \<Rightarrow> 'v list" where
  "objectValues d =
     map snd (sort_key fst (filter (\<lambda>p. isArrayIndex (fst p)) d)) @
     map snd (filter (\<lambda>p. \<not> isArrayIndex (fst p)) d)"

definition toStepStats :: "StepAcc \<Rightarrow> StepStats" where
  "toStepStats acc =
     \<lparr> stepNumber = accStepNumber acc,
       ssStepName = accStepName acc,
       entrances = accEntrances acc,
       exits = accExits acc,
       ssAverageTimeSpent =
         (if timeSpentCount acc > 0 then totalTimeSpent acc / real (timeSpentCount acc) else 0),
       dropOffRate =
         (if accEntrances acc > 0
          then (real (accExits acc) / real (accEntrances acc)) * 100 else 0) \<rparr>"

definition stepStatsOf :: "StepAnalytics list \<Rightarrow> StepStats list" where
  "stepStatsOf docs =
     sortCmp (\<lambda>a b. real_of_int (stepNumber a) - real_of_int (stepNumber b))
       (map toStepStats (objectValues (foldl recordEvent [] docs)))"

definition getStepStats :: "(storeError + StepAnalytics list) \<Rightarrow> storeError + StepStats list" where
  "getStepStats snapshot =
     (case snapshot of
        Inl err \<Rightarrow> Inl err
      | Inr docs \<Rightarrow> Inr (stepStatsOf docs))"

subsection \<open>What the specification asks of getStepStats\<close>

text \<open>The \<open>timeSpent\<close> values present on the events of a step, and their arithmetic mean
  (of at least one value).\<close>

definition presentTimes :: "StepAnalytics list \<Rightarrow> int \<Rightarrow> real list" where
  "presentTimes events n = List.map_filter saTimeSpent (filter (\<lambda>e. step e = n) events)"

definition specMeanTimeSpent :: "StepAnalytics list \<Rightarrow> int \<Rightarrow> real" where
  "specMeanTimeSpent events n =
     sum_list (presentTimes events n) / real (length (presentTimes events n))"

subsection \<open>What getStepStats computes, stated on the events\<close>

text \<open>The number of events of a step with a given action, the \<open>timeSpent\<close> values of a
  step that are not 0, the mean of a list (0 for the empty list), and what an entry of
  \<open>stepData\<close> must hold after the events have been read.\<close>

definition countAction :: "StepAnalytics list \<Rightarrow> int \<Rightarrow> action \<Rightarrow> nat" where
  "countAction events n a = length (filter (\<lambda>e. step e = n \<and> action e = a) events)"

definition nonZeroTimes :: "StepAnalytics list \<Rightarrow> int \<Rightarrow> real list" where
  "nonZeroTimes events n = filter (\<lambda>t. t \<noteq> 0) (presentTimes events n)"

definition accOk :: "StepAnalytics list \<Rightarrow> int \<Rightarrow> StepAcc \<Rightarrow> bool" where
  "accOk events n acc \<longleftrightarrow>
     accStepNumber acc = n \<and>
     accEntrances acc = countAction events n Enter \<and>
     accExits acc = countAction events n Exit \<and>
     totalTimeSpent acc = sum_list (nonZeroTimes events n) \<and>
     timeSpentCount acc = length (nonZeroTimes events n)"

definition meanOrZero :: "real list \<Rightarrow> real" where
  "meanOrZero ts = (if ts = [] then 0 else sum_list ts / real (length ts))"

subsection \<open>Sample step events\<close>

definition answerEvent :: "int \<Rightarrow> real \<Rightarrow> StepAnalytics" where
  "answerEvent n t =
     \<lparr> saSessionId = ''s1'', step = n, stepName = ''Credit Score Check'', action = Answer,
       saTimestamp = 0, answer = Some ''yes'', saTimeSpent = Some t, saExitReason = None,
       saCreatedAt = 0 \<rparr>"

section \<open>adminUtils.ts: exportToCSV\<close>

text \<open>The cells of a row are JavaScript values; numbers are the integers. A row is an object,
  given by its properties in the order \<open>Object.keys\<close> lists them, or \<open>null\<close>/\<open>undefined\<close>,
  on which \<open>Object.keys\<close> and a property read throw a \<open>TypeError\<close>.\<close>

datatype jsValue = JUndefined | JNull | JBoolean bool | JNumber int | JString string

datatype jsRow = RowObject "(string \<times> jsValue) list" | RowNullish

datatype jsError = TypeError

definition dquote :: char where
  "dquote = CHR 0x22"

definition newline :: char where
  "newline = CHR 0x0A"

definition intToString :: "int \<Rightarrow> string" where
  "intToString i = (if i < 0 then ''-'' @ natToString (nat (- i)) else natToString (nat i))"

text \<open>How \<open>Array.prototype.join\<close> renders an element: \<open>undefined\<close> and \<open>null\<close> as the
  empty string, anything else by \<open>ToString\<close>.\<close>

fun joinElement :: "jsValue \<Rightarrow> string" where
  "joinElement JUndefined = []"
| "joinElement JNull = []"
| "joinElement (JBoolean b) = (if b then ''true'' else ''false'')"
| "joinElement (JNumber i) = intToString i"
| "joinElement (JString s) = s"

fun joinWith :: "string \<Rightarrow> string list \<Rightarrow> string" where
  "joinWith sep [] = []"
| "joinWith sep [x] = x"
| "joinWith sep (x # y # ys) = x @ sep @ joinWith sep (y # ys)"

text \<open>\<open>value.replace(/"/g, '""')\<close>\<close>

fun replaceQuotes :: "string \<Rightarrow> string" where
  "replaceQuotes [] = []"
| "replaceQuotes (c # cs) = (if c = dquote then [dquote, dquote] else [c]) @ replaceQuotes cs"

definition objectKeys :: "jsRow \<Rightarrow> jsError + string list" where
  "objectKeys r = (case r of RowNullish \<Rightarrow> Inl TypeError | RowObject props \<Rightarrow> Inr (map fst props))"

definition getProperty :: "jsRow \<Rightarrow> string \<Rightarrow> jsError + jsValue" where
  "getProperty r key =
     (case r of
        RowNullish \<Rightarrow> Inl TypeError
      | RowObject props \<Rightarrow> Inr (case map_of props key of None \<Rightarrow> JUndefined | Some v \<Rightarrow> v))"

text \<open>The callback of the inner \<open>headers.map\<close>.\<close>

definition csvCell :: "jsRow \<Rightarrow> string \<Rightarrow> jsError + jsValue" where
  "csvCell r header =
     (case getProperty r header of
        Inl err \<Rightarrow> Inl err
      | Inr v \<Rightarrow>
          (case v of
             JString s \<Rightarrow>
               if strIncludes s '','' \<or> strIncludes s [dquote]
               then Inr (JString ([dquote] @ replaceQuotes s @ [dquote]))
               else Inr v
           | _ \<Rightarrow> Inr v))"

text \<open>\<open>xs.map(f)\<close> for a callback that may throw: the first throw ends the map.\<close>

fun mapThrowing :: "('a \<Rightarrow> jsError + 'b) \<Rightarrow> 'a list \<Rightarrow> jsError + 'b list" where
  "mapThrowing f [] = Inr []"
| "mapThrowing f (x # xs) =
     (case f x of
        Inl err \<Rightarrow> Inl err
      | Inr y \<Rightarrow> (case mapThrowing f xs of Inl err \<Rightarrow> Inl err | Inr ys \<Rightarrow> Inr (y # ys)))"

definition csvRow :: "string list \<Rightarrow> jsRow \<Rightarrow> jsError + string" where
  "csvRow headers r =
     (case mapThrowing (csvCell r) headers of
        Inl err \<Rightarrow> Inl err
      | Inr cells \<Rightarrow> Inr (joinWith '','' (map joinElement cells)))"

text \<open>What the function hands to the browser: the blob and the name of the download. The
  date stamp \<open>format(new Date(), 'yyyy-MM-dd')\<close> is the parameter \<open>today\<close>.\<close>

record fileDownload =
  blobContent :: string
  blobType :: string
  downloadName :: string

definition exportToCSV :: "string \<Rightarrow> jsRow list \<Rightarrow> string \<Rightarrow> jsError + fileDownload option" where
  "exportToCSV today data filename =
     (case data of
        [] \<Rightarrow> Inr None
      | first # _ \<Rightarrow>
          (case objectKeys first of
             Inl err \<Rightarrow> Inl err
           | Inr headers \<Rightarrow>
               (case mapThrowing (csvRow headers) data of
                  Inl err \<Rightarrow> Inl err
                | Inr rows \<Rightarrow>
                    Inr (Some \<lparr> blobContent = joinWith [newline] (joinWith '','' headers # rows),
                                blobType = ''text/csv'',
                                downloadName = filename @ ''-'' @ today @ ''.csv'' \<rparr>))))"

fun isRowObject :: "jsRow \<Rightarrow> bool" where
  "isRowObject (RowObject props) = True"
| "isRowObject RowNullish = False"

text \<open>The property list of a row object, and the value a property read yields on it.\<close>

fun rowProps :: "jsRow \<Rightarrow> (string \<times> jsValue) list" where
  "rowProps (RowObject props) = props"
| "rowProps RowNullish = []"

definition propValue :: "jsRow \<Rightarrow> string \<Rightarrow> jsValue" where
  "propValue r key = (case map_of (rowProps r) key of None \<Rightarrow> JUndefined | Some v \<Rightarrow> v)"

text \<open>The quoting the CSV format asks for: the text between double quotes, each double
  quote inside written twice.\<close>

definition quoted :: "string \<Rightarrow> string" where
  "quoted s = [dquote] @ concat (map (\<lambda>c. if c = dquote then [dquote, dquote] else [c]) s) @ [dquote]"

text \<open>The text a cell of a row object comes out as.\<close>

definition cellText :: "jsRow \<Rightarrow> string \<Rightarrow> string" where
  "cellText r h =
     (case propValue r h of
        JString s \<Rightarrow> if CHR '','' \<in> set s \<or> dquote \<in> set s then quoted s else s
      | v \<Rightarrow> joinElement v)"

text \<open>The row \<open>{a: "x,y", b: 1}\<close>.\<close>

definition sampleRow :: jsRow where
  "sampleRow = RowObject [(''a'', JString ''x,y''), (''b'', JNumber 1)]"

section \<open>utils/analytics.ts: the session recorder\<close>

subsection \<open>The store and the console\<close>

text \<open>The recorder runs against the document store and the console. A write to the store
  is an attempt that the store accepts or rejects; \<open>writeSucceeds\<close> fixes, for the n-th
  attempt, which. An attempt that is accepted on \<open>addDoc\<close> yields a fresh document id (the
  number of the attempt). An operation reads the clock once: \<open>now\<close>, in epoch
  milliseconds.\<close>

type_synonym docId = nat

record firestore =
  sessionsColl :: "(docId \<times> UserSession) list"
  stepAnalyticsColl :: "(docId \<times> StepAnalytics) list"

record FormAnalytics =
  faSessionId :: string
  startTime :: int
  stepStartTime :: int
  faCurrentStep :: int
  sessionDocId :: "docId option"

record system =
  recorder :: FormAnalytics
  store :: firestore
  writeSucceeds :: "nat \<Rightarrow> bool"
  writeCount :: nat
  console :: "string list"

text \<open>A computation that may throw: it ends in a value or in the error thrown, and in
  either case leaves a state behind.\<close>

type_synonym 'a effect = "system \<Rightarrow> (storeError + 'a) \<times> system"

definition returnE :: "'a \<Rightarrow> 'a effect" where
  "returnE a s = (Inr a, s)"

definition bindE :: "'a effect \<Rightarrow> ('a \<Rightarrow> 'b effect) \<Rightarrow> 'b effect" where
  "bindE m f s = (case m s of (Inl err, s') \<Rightarrow> (Inl err, s') | (Inr a, s') \<Rightarrow> f a s')"

text \<open>\<open>try { m } catch (error) { h(error) }\<close>\<close>

definition tryCatch :: "'a effect \<Rightarrow> (storeError \<Rightarrow> 'a effect) \<Rightarrow> 'a effect" where
  "tryCatch m h s = (case m s of (Inl err, s') \<Rightarrow> h err s' | (Inr a, s') \<Rightarrow> (Inr a, s'))"

definition getRecorder :: "FormAnalytics effect" where
  "getRecorder s = (Inr (recorder s), s)"

definition setRecorder :: "FormAnalytics \<Rightarrow> unit effect" where
  "setRecorder r s = (Inr (), s\<lparr>recorder := r\<rparr>)"

text \<open>\<open>console.error\<close> and \<open>console.log\<close>: the line is kept, nothing is thrown.\<close>

definition consoleWrite :: "string \<Rightarrow> unit effect" where
  "consoleWrite msg s = (Inr (), s\<lparr>console := console s @ [msg]\<rparr>)"

definition addSessionDoc :: "UserSession \<Rightarrow> docId effect" where
  "addSessionDoc d s =
     (let n = writeCount s;
          s1 = s\<lparr>writeCount := n + 1\<rparr>
      in if writeSucceeds s n
         then (Inr n, s1\<lparr>store := (store s)\<lparr>sessionsColl := sessionsColl (store s) @ [(n, d)]\<rparr>\<rparr>)
         else (Inl StoreError, s1))"

definition addStepDoc :: "StepAnalytics \<Rightarrow> docId effect" where
  "addStepDoc d s =
     (let n = writeCount s;
          s1 = s\<lparr>writeCount := n + 1\<rparr>
      in if writeSucceeds s n
         then (Inr n, s1\<lparr>store := (store s)\<lparr>stepAnalyticsColl := stepAnalyticsColl (store s) @ [(n, d)]\<rparr>\<rparr>)
         else (Inl StoreError, s1))"

text \<open>\<open>updateDoc\<close> rejects as well when the document does not exist.\<close>

definition updateSessionDoc :: "docId \<Rightarrow> (UserSession \<Rightarrow> UserSession) \<Rightarrow> unit effect" where
  "updateSessionDoc ref upd s =
     (let n = writeCount s;
          s1 = s\<lparr>writeCount := n + 1\<rparr>
      in case map_of (sessionsColl (store s)) ref of
           None \<Rightarrow> (Inl StoreError, s1)
         | Some d \<Rightarrow>
             if writeSucceeds s n
             then (Inr (), s1\<lparr>store := (store s)\<lparr>sessionsColl :=
                                  AList.update ref (upd d) (sessionsColl (store s))\<rparr>\<rparr>)
             else (Inl StoreError, s1))"

text \<open>\<open>Math.round(ms / 1000)\<close> on whole milliseconds: halves round up.\<close>

definition roundSeconds :: "int \<Rightarrow> int" where
  "roundSeconds ms = (ms + 500) div 1000"

subsection \<open>The operations of FormAnalytics\<close>

definition initializeSession :: "string \<Rightarrow> int \<Rightarrow> unit effect" where
  "initializeSession navigatorUserAgent now =
     bindE getRecorder (\<lambda>this.
       let sessionData =
             \<lparr> sessionId = faSessionId this, timestamp = now, userAgent = navigatorUserAgent,
               currentStep = Some 0, formData = [], timeSpent = Some 0, exitReason = None,
               createdAt = now, updatedAt = now \<rparr>
       in tryCatch
            (bindE (addSessionDoc sessionData) (\<lambda>docRef.
             bindE (setRecorder (this\<lparr>sessionDocId := Some docRef\<rparr>)) (\<lambda>_.
             consoleWrite ''Session initialized with ID:'')))
            (\<lambda>error. consoleWrite ''Error initializing session:''))"

definition trackStepEnter :: "int \<Rightarrow> string \<Rightarrow> int \<Rightarrow> unit effect" where
  "trackStepEnter step' stepName' now =
     bindE getRecorder (\<lambda>this0.
     bindE (setRecorder (this0\<lparr>faCurrentStep := step', stepStartTime := now\<rparr>)) (\<lambda>_.
     bindE getRecorder (\<lambda>this.
       let analyticsData =
             \<lparr> saSessionId = faSessionId this, step = step', stepName = stepName',
               action = Enter, saTimestamp = now, answer = None, saTimeSpent = None,
               saExitReason = None, saCreatedAt = now \<rparr>
       in tryCatch
            (bindE (addStepDoc analyticsData) (\<lambda>_. returnE ()))
            (\<lambda>error. consoleWrite ''Error tracking step enter:''))))"

definition trackStepAnswer :: "int \<Rightarrow> string \<Rightarrow> string \<Rightarrow> int \<Rightarrow> unit effect" where
  "trackStepAnswer step' stepName' answer' now =
     bindE getRecorder (\<lambda>this.
       let timeSpent' = roundSeconds (now - stepStartTime this);
           analyticsData =
             \<lparr> saSessionId = faSessionId this, step = step', stepName = stepName',
               action = Answer, saTimestamp = now, answer = Some answer',
               saTimeSpent = Some (real_of_int timeSpent'), saExitReason = None,
               saCreatedAt = now \<rparr>
       in tryCatch
            (bindE (addStepDoc analyticsData) (\<lambda>_. returnE ()))
            (\<lambda>error. consoleWrite ''Error tracking step answer:''))"

definition updateSession :: "(UserSession \<Rightarrow> UserSession) \<Rightarrow> unit effect" where
  "updateSession updateData =
     bindE getRecorder (\<lambda>this.
       case sessionDocId this of
         None \<Rightarrow> consoleWrite ''Session document ID not available''
       | Some ref \<Rightarrow>
           tryCatch
             (updateSessionDoc ref updateData)
             (\<lambda>error. consoleWrite ''Error updating session:''))"

definition trackStepExit :: "int \<Rightarrow> string \<Rightarrow> exitReason \<Rightarrow> int \<Rightarrow> unit effect" where
  "trackStepExit step' stepName' reason now =
     bindE getRecorder (\<lambda>this.
       let totalTimeSpent' = roundSeconds (now - startTime this);
           stepTimeSpent = roundSeconds (now - stepStartTime this);
           analyticsData =
             \<lparr> saSessionId = faSessionId this, step = step', stepName = stepName',
               action = Exit, saTimestamp = now, answer = None,
               saTimeSpent = Some (real_of_int stepTimeSpent), saExitReason = Some reason,
               saCreatedAt = now \<rparr>
       in bindE
            (tryCatch
               (bindE (addStepDoc analyticsData) (\<lambda>_. returnE ()))
               (\<lambda>error. consoleWrite ''Error tracking step exit:''))
            (\<lambda>_. updateSession
                    (\<lambda>d. d\<lparr>currentStep := Some step', exitReason := Some reason,
                            timeSpent := Some (real_of_int totalTimeSpent'),
                            updatedAt := now\<rparr>)))"

definition updateFormData :: "(string \<times> string) list \<Rightarrow> int \<Rightarrow> unit effect" where
  "updateFormData formData' now =
     bindE getRecorder (\<lambda>this.
       updateSession
         (\<lambda>d. d\<lparr>formData := formData', currentStep := Some (faCurrentStep this),
                 updatedAt := now\<rparr>))"

subsection \<open>A recorder whose store rejects every write\<close>

definition offlineSystem :: system where
  "offlineSystem =
     \<lparr> recorder = \<lparr> faSessionId = ''uuid-1'', startTime = 0, stepStartTime = 0,
                    faCurrentStep = 0, sessionDocId = Some 7 \<rparr>,
       store = \<lparr> sessionsColl = [], stepAnalyticsColl = [] \<rparr>,
       writeSucceeds = (\<lambda>n. False),
       writeCount = 0,
       console = [] \<rparr>"

section \<open>Properties\<close>

subsection \<open>String primitives\<close>

lemma startsWith_iff: "startsWith s p \<longleftrightarrow> (\<exists>post. s = p @ post)"
  by (induction s p rule: startsWith.induct) auto

lemma strIncludes_iff: "strIncludes s p \<longleftrightarrow> (\<exists>pre post. s = pre @ p @ post)"
proof (induction s)
  case Nil
  then show ?case by simp
next
  case (Cons c cs)
  show ?case
  proof
    assume "strIncludes (c # cs) p"
    then consider "startsWith (c # cs) p" | "strIncludes cs p" by auto
    then show "\<exists>pre post. c # cs = pre @ p @ post"
    proof cases
      case 1
      then obtain post where "c # cs = p @ post" using startsWith_iff by blast
      then have "c # cs = [] @ p @ post" by simp
      then show ?thesis by blast
    next
      case 2
      then obtain pre post where "cs = pre @ p @ post" using Cons.IH by blast
      then have "c # cs = (c # pre) @ p @ post" by simp
      then show ?thesis by blast
    qed
  next
    assume "\<exists>pre post. c # cs = pre @ p @ post"
    then obtain pre post where eq: "c # cs = pre @ p @ post" by blast
    show "strIncludes (c # cs) p"
    proof (cases pre)
      case Nil
      with eq have "startsWith (c # cs) p" using startsWith_iff by auto
      then show ?thesis by simp
    next
      case (Cons a pre')
      with eq have "cs = pre' @ p @ post" by simp
      then have "strIncludes cs p" using Cons.IH by blast
      then show ?thesis by simp
    qed
  qed
qed

subsection \<open>Rates\<close>

text \<open>C6: \<open>getConversionRate(completed, total)\<close> is 0 when \<open>total\<close> is 0 and
  \<open>completed / total * 100\<close> otherwise; \<open>getConversionRate(0,0)\<close> is 0 and
  \<open>getConversionRate(5,10)\<close> is 50.\<close>

theorem getConversionRate_spec:
  "getConversionRate completed 0 = 0 \<and>
   (t \<noteq> 0 \<longrightarrow> getConversionRate completed t = completed / t * 100) \<and>
   getConversionRate 0 0 = 0 \<and>
   getConversionRate 5 10 = 50"
  by (simp add: getConversionRate_def)

theorem getConversionRate_spec_witness:
  "(4::real) \<noteq> 0 \<and> getConversionRate 1 4 = 25 \<and> getConversionRate 1 0 = 0"
  using getConversionRate_spec [of 1 4] by simp

text \<open>C7: \<open>getDropOffRate(exits, entrances)\<close> is 0 when \<open>entrances\<close> is 0 and
  \<open>exits / entrances * 100\<close> otherwise, for all numbers.\<close>

theorem getDropOffRate_spec:
  "getDropOffRate x 0 = 0 \<and>
   (n \<noteq> 0 \<longrightarrow> getDropOffRate x n = x / n * 100)"
  by (simp add: getDropOffRate_def)

theorem getDropOffRate_spec_witness:
  "(8::real) \<noteq> 0 \<and> getDropOffRate 2 8 = 25 \<and> getDropOffRate 2 0 = 0"
  using getDropOffRate_spec [of 2 8] by simp

subsection \<open>formatTime\<close>

text \<open>C8: \<open>formatTime\<close> renders a non-negative whole number of seconds as seconds alone
  below one minute, as minutes and seconds below one hour, and as whole hours and the
  minutes left over (seconds dropped) from one hour on; \<open>formatTime(45)\<close> is \<open>45s\<close>,
  \<open>formatTime(125)\<close> is \<open>2m 5s\<close> and \<open>formatTime(3725)\<close> is \<open>1h 2m\<close>.\<close>

theorem formatTime_spec:
  "formatTime s =
     (if s < 60 then natToString s @ ''s''
      else if s < 3600 then natToString (s div 60) @ ''m '' @ natToString (s mod 60) @ ''s''
      else natToString (s div 3600) @ ''h '' @ natToString (s mod 3600 div 60) @ ''m'') \<and>
   formatTime 45 = ''45s'' \<and>
   formatTime 125 = ''2m 5s'' \<and>
   formatTime 3725 = ''1h 2m''"
proof -
  have hours: "s div 60 div 60 = s div 3600"
    by (simp add: div_mult2_eq [symmetric])
  have mins: "s div 60 mod 60 = s mod 3600 div 60"
    using mod_mult2_eq [of s 60 60] by simp
  have general: "formatTime s =
     (if s < 60 then natToString s @ ''s''
      else if s < 3600 then natToString (s div 60) @ ''m '' @ natToString (s mod 60) @ ''s''
      else natToString (s div 3600) @ ''h '' @ natToString (s mod 3600 div 60) @ ''m'')"
    unfolding formatTime_def Let_def hours mins
    by (simp add: div_less_iff_less_mult)
  have e1: "formatTime 45 = ''45s''" by code_simp
  have e2: "formatTime 125 = ''2m 5s''" by code_simp
  have e3: "formatTime 3725 = ''1h 2m''" by code_simp
  from general e1 e2 e3 show ?thesis by blast
qed

subsection \<open>User-agent classification\<close>

lemma testAltsCI_iff:
  "testAltsCI alts s \<longleftrightarrow>
     (\<exists>a \<in> set alts. \<exists>pre post. toLowerCase s = pre @ toLowerCase a @ post)"
  by (simp add: testAltsCI_def list_ex_iff strIncludes_iff)

text \<open>C10: \<open>parseUserAgent\<close> of adminUtils.ts and the sessions page's own \<open>parseUserAgent\<close>
  return the same \<open>deviceType\<close> for every string: tablet if it matches iPad or Tablet,
  else mobile if it matches Mobile, Android, iPhone or iPad, else desktop (letters
  compared without case); their browser and OS differ for some strings.\<close>

theorem parseUserAgent_deviceType_agree:
  "deviceType (parseUserAgent ua) = deviceType (parseUserAgentPage ua) \<and>
   deviceType (parseUserAgent ua) =
     (if testAltsCI [''iPad'', ''Tablet''] ua then Tablet
      else if testAltsCI [''Mobile'', ''Android'', ''iPhone'', ''iPad''] ua then Mobile
      else Desktop) \<and>
   browser (parseUserAgent ''Opera/9.80'') \<noteq> browser (parseUserAgentPage ''Opera/9.80'') \<and>
   os (parseUserAgent ''Windows NT 10.0'') \<noteq> os (parseUserAgentPage ''Windows NT 10.0'')"
proof -
  have a: "deviceType (parseUserAgent ua) = deviceType (parseUserAgentPage ua)"
    by (simp add: parseUserAgent_def parseUserAgentPage_def Let_def)
  have b: "deviceType (parseUserAgent ua) =
     (if testAltsCI [''iPad'', ''Tablet''] ua then Tablet
      else if testAltsCI [''Mobile'', ''Android'', ''iPhone'', ''iPad''] ua then Mobile
      else Desktop)"
    by (simp add: parseUserAgent_def Let_def)
  have c: "browser (parseUserAgent ''Opera/9.80'') \<noteq> browser (parseUserAgentPage ''Opera/9.80'')"
    by code_simp
  have d: "os (parseUserAgent ''Windows NT 10.0'') \<noteq> os (parseUserAgentPage ''Windows NT 10.0'')"
    by code_simp
  from a b c d show ?thesis by blast
qed

subsection \<open>Sorting the session list\<close>

lemma insertCmp_insort_key:
  assumes "\<And>a b. (cmp a b \<le> 0) = (f a \<le> f b)"
  shows "insertCmp cmp x ys = insort_key f x ys"
  by (induction ys) (simp_all add: assms)

lemma sortCmp_sort_key:
  assumes "\<And>a b. (cmp a b \<le> 0) = (f a \<le> f b)"
  shows "sortCmp cmp xs = sort_key f xs"
proof -
  have "insertCmp cmp = insort_key f"
    using insertCmp_insort_key [OF assms] by (intro ext)
  then show ?thesis by (simp add: sortCmp_def sort_key_def)
qed

lemma sortCmp_duration_Asc:
  "sortCmp (sessionComparator ByDuration Asc) xs = sort_key duration xs"
  by (rule sortCmp_sort_key) (simp add: sessionComparator_def comparison_def)

lemma sortCmp_duration_Desc:
  "sortCmp (sessionComparator ByDuration Desc) xs = sort_key (\<lambda>s. - duration s) xs"
  by (rule sortCmp_sort_key) (simp add: sessionComparator_def comparison_def)

lemma sorted_neg_rev:
  fixes f :: "'a \<Rightarrow> real"
  shows "sorted (map f ys) \<Longrightarrow> sorted (map (\<lambda>s. - f s) (rev ys))"
  by (induction ys) (auto simp: sorted_append)

lemma keys_of_neg_sort:
  fixes f :: "'a \<Rightarrow> real"
  shows "map f (sort_key (\<lambda>s. - f s) xs) = rev (map f (sort_key f xs))"
proof -
  let ?A = "map (\<lambda>s. - f s) (sort_key (\<lambda>s. - f s) xs)"
  let ?B = "map (\<lambda>s. - f s) (rev (sort_key f xs))"
  have "sorted ?A" by (rule sorted_sort_key)
  moreover have "sorted ?B" by (rule sorted_neg_rev) (rule sorted_sort_key)
  moreover have "mset ?A = mset ?B" by simp
  ultimately have "?A = ?B"
    using properties_for_sort [of ?A ?B] properties_for_sort [of ?B ?B] by simp
  then have "map uminus ?A = map uminus ?B" by simp
  then show ?thesis by (simp add: rev_map o_def)
qed

lemma neg_sort_distinct:
  fixes f :: "'a \<Rightarrow> real"
  assumes "distinct (map f xs)"
  shows "sort_key (\<lambda>s. - f s) xs = rev (sort_key f xs)"
proof (rule sort_key_inj_key_eq)
  show "mset xs = mset (rev (sort_key f xs))" by simp
  from assms have "inj_on f (set xs)" by (simp add: distinct_map)
  then show "inj_on (\<lambda>s. - f s) (set xs)" by (auto simp: inj_on_def)
  show "sorted (map (\<lambda>s. - f s) (rev (sort_key f xs)))"
    by (rule sorted_neg_rev) (rule sorted_sort_key)
qed

lemma matchesFilters_sort [simp]:
  "matchesFilters (st\<lparr>sortBy := k, sortOrder := ord\<rparr>) = matchesFilters st"
  by (intro ext) (simp add: matchesFilters_def)

lemma sortedByDuration_Asc:
  "sortedByDuration Asc st = sort_key duration (filter (matchesFilters st) (sessions st))"
  by (simp add: sortedByDuration_def filterAndSortSessions_def Let_def sortCmp_duration_Asc)

lemma sortedByDuration_Desc:
  "sortedByDuration Desc st =
     sort_key (\<lambda>s. - duration s) (filter (matchesFilters st) (sessions st))"
  by (simp add: sortedByDuration_def filterAndSortSessions_def Let_def sortCmp_duration_Desc)

text \<open>C4, as the code has it: for every list of sessions, the durations of the descending
  result are the durations of the ascending result in reversed order, and the descending
  result is exactly the reversed ascending result when no two of the sessions shown have
  the same duration. Sessions of equal duration are not reversed: in the ascending and in
  the descending result alike, the sessions of any one duration stand in the order they
  have in the filtered session list.\<close>

theorem sort_duration_desc_reverses:
  "map duration (sortedByDuration Desc st) = rev (map duration (sortedByDuration Asc st)) \<and>
   (distinct (map duration (sortedByDuration Asc st)) \<longrightarrow>
      sortedByDuration Desc st = rev (sortedByDuration Asc st)) \<and>
   filter (\<lambda>s. duration s = d) (sortedByDuration Asc st) =
     filter (\<lambda>s. duration s = d) (filter (matchesFilters st) (sessions st)) \<and>
   filter (\<lambda>s. duration s = d) (sortedByDuration Desc st) =
     filter (\<lambda>s. duration s = d) (filter (matchesFilters st) (sessions st))"
proof (intro conjI impI)
  show "map duration (sortedByDuration Desc st) = rev (map duration (sortedByDuration Asc st))"
    unfolding sortedByDuration_Asc sortedByDuration_Desc by (rule keys_of_neg_sort)
next
  show "filter (\<lambda>s. duration s = d) (sortedByDuration Asc st) =
          filter (\<lambda>s. duration s = d) (filter (matchesFilters st) (sessions st))"
    unfolding sortedByDuration_Asc by (rule sort_key_stable)
next
  let ?xs = "filter (matchesFilters st) (sessions st)"
  have "filter (\<lambda>s. - duration s = - d) (sort_key (\<lambda>s. - duration s) ?xs) =
          filter (\<lambda>s. - duration s = - d) ?xs"
    by (rule sort_key_stable)
  then show "filter (\<lambda>s. duration s = d) (sortedByDuration Desc st) =
          filter (\<lambda>s. duration s = d) (filter (matchesFilters st) (sessions st))"
    unfolding sortedByDuration_Desc by simp
next
  let ?xs = "filter (matchesFilters st) (sessions st)"
  assume "distinct (map duration (sortedByDuration Asc st))"
  then have "distinct (map duration (sort_key duration ?xs))"
    by (simp add: sortedByDuration_Asc)
  moreover have "mset (map duration (sort_key duration ?xs)) = mset (map duration ?xs)"
    by simp
  ultimately have "distinct (map duration ?xs)"
    by (metis mset_eq_imp_distinct_iff)
  then show "sortedByDuration Desc st = rev (sortedByDuration Asc st)"
    unfolding sortedByDuration_Asc sortedByDuration_Desc by (rule neg_sort_distinct)
qed

theorem sort_duration_desc_reverses_witness:
  "distinct (map duration (sortedByDuration Asc (pageOf [sessC, sessA]))) \<and>
   sortedByDuration Asc (pageOf [sessC, sessA]) = [sessA, sessC] \<and>
   sortedByDuration Desc (pageOf [sessC, sessA]) = [sessC, sessA] \<and>
   filter (\<lambda>s. duration s = 5) (sortedByDuration Desc (pageOf [sessC, sessA])) = [sessA]"
proof -
  have d: "distinct (map duration (sortedByDuration Asc (pageOf [sessC, sessA])))"
    by code_simp
  have a: "sortedByDuration Asc (pageOf [sessC, sessA]) = [sessA, sessC]"
    by code_simp
  have f: "filter (\<lambda>s. duration s = 5) (filter (matchesFilters (pageOf [sessC, sessA]))
             (sessions (pageOf [sessC, sessA]))) = [sessA]"
    by code_simp
  note inst = sort_duration_desc_reverses [where st = "pageOf [sessC, sessA]" and d = 5]
  from inst d have "sortedByDuration Desc (pageOf [sessC, sessA]) =
      rev (sortedByDuration Asc (pageOf [sessC, sessA]))"
    by blast
  with a have r: "sortedByDuration Desc (pageOf [sessC, sessA]) = [sessC, sessA]"
    by simp
  from inst have "filter (\<lambda>s. duration s = 5) (sortedByDuration Desc (pageOf [sessC, sessA])) =
      filter (\<lambda>s. duration s = 5) (filter (matchesFilters (pageOf [sessC, sessA]))
        (sessions (pageOf [sessC, sessA])))"
    by blast
  with f have k: "filter (\<lambda>s. duration s = 5) (sortedByDuration Desc (pageOf [sessC, sessA])) =
      [sessA]"
    by (rule trans [rotated])
  from d a r k show ?thesis by blast
qed

text \<open>C4 as stated fails on ties: two sessions of equal duration keep their order in both
  directions, so the descending list is not the reversed ascending one.\<close>

theorem sort_duration_ties_counterexample:
  "sortedByDuration Asc (pageOf [sessA, sessB]) = [sessA, sessB] \<and>
   sortedByDuration Desc (pageOf [sessA, sessB]) = [sessA, sessB] \<and>
   sortedByDuration Desc (pageOf [sessA, sessB]) \<noteq> rev (sortedByDuration Asc (pageOf [sessA, sessB]))"
  by code_simp

subsection \<open>Analytics queries\<close>

text \<open>C2: \<open>getAnalyticsSummary\<close> on an empty session list returns a summary whose
  \<open>totalSessions\<close>, \<open>completedSessions\<close>, \<open>abandonedSessions\<close>, \<open>averageTimeSpent\<close> and
  \<open>conversionRate\<close> are 0 and whose \<open>dropOffByStep\<close> is empty; it does not fail.\<close>

theorem getAnalyticsSummary_empty:
  assumes "getDocs (summaryQuery startDate endDate) = Inr []"
  shows "getAnalyticsSummary getDocs startDate endDate =
           Inr \<lparr> totalSessions = 0, completedSessions = 0, abandonedSessions = 0,
                 averageTimeSpent = 0, conversionRate = 0, dropOffByStep = [] \<rparr>"
  using assms by (simp add: getAnalyticsSummary_def summarize_def)

theorem getAnalyticsSummary_empty_witness:
  "runSessionsQuery [] (summaryQuery None (Some 5)) = Inr [] \<and>
   getAnalyticsSummary (runSessionsQuery []) None (Some 5) =
     Inr \<lparr> totalSessions = 0, completedSessions = 0, abandonedSessions = 0,
           averageTimeSpent = 0, conversionRate = 0, dropOffByStep = [] \<rparr>"
proof -
  have q: "runSessionsQuery [] (summaryQuery None (Some 5)) = Inr []"
    by (simp add: runSessionsQuery_def summaryQuery_def)
  from q getAnalyticsSummary_empty [of "runSessionsQuery []" None "Some 5"]
  show ?thesis by simp
qed

subsection \<open>getStepStats on any list of events\<close>

lemma presentTimes_snoc:
  "presentTimes (xs @ [x]) n =
     presentTimes xs n @
       (if step x = n then (case saTimeSpent x of None \<Rightarrow> [] | Some t \<Rightarrow> [t]) else [])"
  by (simp add: presentTimes_def List.map_filter_def split: option.splits)

lemma countAction_snoc:
  "countAction (xs @ [x]) n a =
     countAction xs n a + (if step x = n \<and> action x = a then 1 else 0)"
  by (simp add: countAction_def)

lemma accOk_unseen:
  assumes "n \<notin> step ` set xs"
  shows "countAction xs n a = 0" and "presentTimes xs n = []"
proof -
  have "filter (\<lambda>e. step e = n) xs = []" using assms by (auto simp: filter_empty_conv)
  then show "presentTimes xs n = []" by (simp add: presentTimes_def List.map_filter_def)
  show "countAction xs n a = 0" using assms by (auto simp: countAction_def filter_empty_conv)
qed

lemma recordEvent_lookup:
  "map_of (recordEvent d x) n =
     (if n = step x then map_of (recordEvent d x) (step x) else map_of d n)"
  by (simp add: recordEvent_def Let_def update_conv')

lemma recordEvent_acc:
  assumes "case map_of d (step x) of None \<Rightarrow> step x \<notin> step ` set xs | Some acc \<Rightarrow> accOk xs (step x) acc"
  shows "\<exists>acc. map_of (recordEvent d x) (step x) = Some acc \<and> accOk (xs @ [x]) (step x) acc"
proof (cases "map_of d (step x)")
  case None
  with assms have "step x \<notin> step ` set xs" by simp
  from accOk_unseen [OF this] None show ?thesis
    by (cases "action x")
       (auto simp: recordEvent_def Let_def update_conv' accOk_def countAction_snoc
          nonZeroTimes_def presentTimes_snoc split: option.splits)
next
  case (Some acc)
  with assms have "accOk xs (step x) acc" by simp
  with Some show ?thesis
    by (cases "action x")
       (auto simp: recordEvent_def Let_def update_conv' accOk_def countAction_snoc
          nonZeroTimes_def presentTimes_snoc split: option.splits)
qed

lemma stepData_lookup:
  "case map_of (foldl recordEvent [] docs) n of
     None \<Rightarrow> n \<notin> step ` set docs
   | Some acc \<Rightarrow> n \<in> step ` set docs \<and> accOk docs n acc"
proof (induction docs arbitrary: n rule: rev_induct)
  case Nil
  then show ?case by simp
next
  case (snoc x xs)
  let ?d = "foldl recordEvent [] xs"
  show ?case
  proof (cases "n = step x")
    case True
    have "case map_of ?d (step x) of None \<Rightarrow> step x \<notin> step ` set xs
          | Some acc \<Rightarrow> accOk xs (step x) acc"
      using snoc [of "step x"] by (auto split: option.splits)
    from recordEvent_acc [OF this] True show ?thesis by auto
  next
    case False
    then have same: "map_of (recordEvent ?d x) n = map_of ?d n"
      using recordEvent_lookup [of ?d x n] by simp
    from False have "accOk (xs @ [x]) n acc = accOk xs n acc" for acc
      by (simp add: accOk_def countAction_snoc nonZeroTimes_def presentTimes_snoc)
    with snoc [of n] same False show ?thesis
      by (auto split: option.splits)
  qed
qed

lemma stepData_distinct: "distinct (map fst (foldl recordEvent [] docs))"
proof (induction docs rule: rev_induct)
  case Nil
  then show ?case by simp
next
  case (snoc x xs)
  then show ?case by (simp add: recordEvent_def Let_def distinct_update)
qed

lemma mset_objectValues: "mset (objectValues d) = mset (map snd d)"
proof -
  let ?P = "\<lambda>p. isArrayIndex (fst p)"
  have "mset d = filter_mset ?P (mset d) + filter_mset (\<lambda>p. \<not> ?P p) (mset d)"
    by (rule multiset_partition)
  then have "image_mset snd (mset d) =
      image_mset snd (filter_mset ?P (mset d)) + image_mset snd (filter_mset (\<lambda>p. \<not> ?P p) (mset d))"
    by (metis image_mset_union)
  then show ?thesis by (simp add: objectValues_def)
qed

lemma stepStatsOf_sort_key:
  "stepStatsOf docs =
     sort_key stepNumber (map toStepStats (objectValues (foldl recordEvent [] docs)))"
  unfolding stepStatsOf_def by (rule sortCmp_sort_key) simp

lemma stepData_entry:
  assumes "(k, acc) \<in> set (foldl recordEvent [] docs)"
  shows "k \<in> step ` set docs \<and> accOk docs k acc"
proof -
  have "map_of (foldl recordEvent [] docs) k = Some acc"
    using assms stepData_distinct by (simp add: map_of_eq_Some_iff)
  with stepData_lookup [where docs = docs and n = k] show ?thesis by simp
qed

lemma stepStatsOf_members:
  "set (stepStatsOf docs) = (\<lambda>p. toStepStats (snd p)) ` set (foldl recordEvent [] docs)"
proof -
  have "set (objectValues (foldl recordEvent [] docs)) = snd ` set (foldl recordEvent [] docs)"
    using mset_objectValues [of "foldl recordEvent [] docs"]
    by (metis mset_eq_setD set_map)
  then show ?thesis by (auto simp: stepStatsOf_sort_key)
qed

lemma stepStatsOf_sorted: "sorted (map stepNumber (stepStatsOf docs))"
  unfolding stepStatsOf_sort_key by (rule sorted_sort_key)

lemma stepStatsOf_steps:
  "mset (map stepNumber (stepStatsOf docs)) = mset (map fst (foldl recordEvent [] docs))"
proof -
  let ?d = "foldl recordEvent [] docs"
  have "mset (map stepNumber (stepStatsOf docs)) =
          image_mset (\<lambda>acc. stepNumber (toStepStats acc)) (mset (objectValues ?d))"
    by (simp add: stepStatsOf_sort_key image_mset.compositionality o_def)
  also have "\<dots> = image_mset (\<lambda>p. accStepNumber (snd p)) (mset ?d)"
    by (simp add: mset_objectValues toStepStats_def image_mset.compositionality o_def)
  also have "\<dots> = image_mset fst (mset ?d)"
    by (rule image_mset_cong) (auto dest: stepData_entry simp: accOk_def)
  finally show ?thesis by simp
qed

lemma stepStatsOf_distinct: "distinct (map stepNumber (stepStatsOf docs))"
  using stepStatsOf_steps [of docs] stepData_distinct [of docs]
  by (metis mset_eq_imp_distinct_iff)

lemma stepStatsOf_step_set: "set (map stepNumber (stepStatsOf docs)) = step ` set docs"
proof -
  have "set (map stepNumber (stepStatsOf docs)) = fst ` set (foldl recordEvent [] docs)"
    using stepStatsOf_steps [of docs] by (metis mset_eq_setD set_map)
  also have "\<dots> = step ` set docs"
  proof (intro set_eqI iffI)
    fix k assume "k \<in> fst ` set (foldl recordEvent [] docs)"
    then show "k \<in> step ` set docs" using stepData_entry by fastforce
  next
    fix k assume k: "k \<in> step ` set docs"
    with stepData_lookup [where docs = docs and n = k]
    obtain acc where "map_of (foldl recordEvent [] docs) k = Some acc"
      by (auto split: option.splits)
    then show "k \<in> fst ` set (foldl recordEvent [] docs)"
      by (metis map_of_SomeD fst_conv image_eqI)
  qed
  finally show ?thesis .
qed

lemma stepStatsOf_entry:
  assumes "st \<in> set (stepStatsOf docs)"
  shows "entrances st = countAction docs (stepNumber st) Enter \<and>
         exits st = countAction docs (stepNumber st) Exit \<and>
         dropOffRate st =
           (if countAction docs (stepNumber st) Enter = 0 then 0
            else real (countAction docs (stepNumber st) Exit) /
                 real (countAction docs (stepNumber st) Enter) * 100) \<and>
         ssAverageTimeSpent st = meanOrZero (nonZeroTimes docs (stepNumber st))"
proof -
  from assms obtain k acc where in_d: "(k, acc) \<in> set (foldl recordEvent [] docs)"
      and st: "st = toStepStats acc"
    by (auto simp: stepStatsOf_members)
  from stepData_entry [OF in_d] have "accOk docs k acc" by simp
  then show ?thesis
    unfolding st by (auto simp: accOk_def toStepStats_def meanOrZero_def)
qed

lemma nonZeroTimes_all_present:
  assumes "0 \<notin> set (presentTimes docs n)" and "presentTimes docs n \<noteq> []"
  shows "meanOrZero (nonZeroTimes docs n) = specMeanTimeSpent docs n"
proof -
  from assms(1) have "nonZeroTimes docs n = presentTimes docs n"
    by (auto simp: nonZeroTimes_def filter_id_conv)
  with assms(2) show ?thesis by (simp add: meanOrZero_def specMeanTimeSpent_def)
qed

text \<open>What \<open>getStepStats\<close> returns on any list of events: one entry per step that occurs,
  in ascending order of the step number, with the counts of enter and exit events, the
  drop-off rate from them, and the mean of the \<open>timeSpent\<close> values that are not 0.\<close>

lemma getStepStats_result:
  "getStepStats (Inr docs) = Inr (stepStatsOf docs) \<and>
   sorted (map stepNumber (stepStatsOf docs)) \<and>
   distinct (map stepNumber (stepStatsOf docs)) \<and>
   set (map stepNumber (stepStatsOf docs)) = step ` set docs \<and>
   (\<forall>st \<in> set (stepStatsOf docs).
      entrances st = countAction docs (stepNumber st) Enter \<and>
      exits st = countAction docs (stepNumber st) Exit \<and>
      dropOffRate st =
        (if countAction docs (stepNumber st) Enter = 0 then 0
         else real (countAction docs (stepNumber st) Exit) /
              real (countAction docs (stepNumber st) Enter) * 100) \<and>
      ssAverageTimeSpent st = meanOrZero (nonZeroTimes docs (stepNumber st)))"
  using stepStatsOf_sorted stepStatsOf_distinct stepStatsOf_step_set stepStatsOf_entry
  by (simp add: getStepStats_def)

text \<open>C1 at two answer events of step 1 with \<open>timeSpent\<close> 0 and 10: both values are
  present and their mean is 5, but \<open>getStepStats\<close> reports 10, since the event whose
  \<open>timeSpent\<close> is 0 is left out of the count.\<close>

theorem getStepStats_zero_timeSpent:
  "getStepStats (Inr [answerEvent 1 0, answerEvent 1 10]) =
     Inr [\<lparr> stepNumber = 1, ssStepName = ''Credit Score Check'', entrances = 0, exits = 0,
            ssAverageTimeSpent = 10, dropOffRate = 0 \<rparr>] \<and>
   presentTimes [answerEvent 1 0, answerEvent 1 10] 1 = [0, 10] \<and>
   specMeanTimeSpent [answerEvent 1 0, answerEvent 1 10] 1 = 5"
  by code_simp

subsection \<open>CSV export\<close>

lemma strIncludes_single: "strIncludes s [c] \<longleftrightarrow> c \<in> set s"
  by (induction s) auto

lemma replaceQuotes_quoted: "dquote # replaceQuotes s @ [dquote] = quoted s"
  unfolding quoted_def by (induction s) auto

lemma mapThrowing_Inr:
  assumes "\<And>x. x \<in> set xs \<Longrightarrow> f x = Inr (g x)"
  shows "mapThrowing f xs = Inr (map g xs)"
  using assms by (induction xs) auto

lemma mapThrowing_rendered:
  assumes "\<And>x. x \<in> set xs \<Longrightarrow> \<exists>v. f x = Inr v \<and> render v = t x"
  shows "\<exists>vs. mapThrowing f xs = Inr vs \<and> map render vs = map t xs"
  using assms
proof (induction xs)
  case Nil
  then show ?case by simp
next
  case (Cons x xs)
  then obtain v where v: "f x = Inr v" "render v = t x" by auto
  from Cons obtain vs where vs: "mapThrowing f xs = Inr vs" "map render vs = map t xs" by auto
  from v vs show ?case by simp
qed

lemma csvCell_object:
  assumes "isRowObject r"
  shows "\<exists>v. csvCell r h = Inr v \<and> joinElement v = cellText r h"
proof -
  from assms obtain props where r: "r = RowObject props" by (cases r) auto
  show ?thesis
    unfolding r csvCell_def getProperty_def cellText_def propValue_def
    by (auto simp: strIncludes_single replaceQuotes_quoted
        split: option.splits jsValue.splits)
qed

lemma csvRow_object:
  assumes "isRowObject r"
  shows "csvRow headers r = Inr (joinWith '','' (map (cellText r) headers))"
proof -
  obtain vs where "mapThrowing (csvCell r) headers = Inr vs"
      and "map joinElement vs = map (cellText r) headers"
    using mapThrowing_rendered [of headers "csvCell r" joinElement "cellText r"]
      csvCell_object [OF assms] by blast
  then show ?thesis by (simp add: csvRow_def)
qed

lemma exportToCSV_objects:
  assumes "list_all isRowObject (first # rest)"
  shows "exportToCSV today (first # rest) filename =
     Inr (Some \<lparr> blobContent =
                   joinWith [newline]
                     (joinWith '','' (map fst (rowProps first)) #
                      map (\<lambda>r. joinWith '','' (map (cellText r) (map fst (rowProps first))))
                        (first # rest)),
                 blobType = ''text/csv'',
                 downloadName = filename @ ''-'' @ today @ ''.csv'' \<rparr>)"
proof -
  from assms obtain props where f: "first = RowObject props" by (cases first) auto
  let ?headers = "map fst props"
  have "mapThrowing (csvRow ?headers) (first # rest) =
          Inr (map (\<lambda>r. joinWith '','' (map (cellText r) ?headers)) (first # rest))"
    using assms by (intro mapThrowing_Inr csvRow_object) (auto simp: list_all_iff)
  then show ?thesis
    by (simp add: exportToCSV_def objectKeys_def f)
qed

lemma exportToCSV_sampleRow:
  "exportToCSV today [sampleRow] filename =
     Inr (Some \<lparr> blobContent = ''a,b'' @ [newline] @ [dquote] @ ''x,y'' @ [dquote] @ '',1'',
                 blobType = ''text/csv'',
                 downloadName = filename @ ''-'' @ today @ ''.csv'' \<rparr>)"
  by (simp add: exportToCSV_def sampleRow_def objectKeys_def csvRow_def csvCell_def
      getProperty_def intToString_def natToString.simps digitChar_def dquote_def)

text \<open>C3: for every non-empty list of row objects, the CSV text of \<open>exportToCSV\<close> is the
  lines joined by newlines, the first line being the keys of the first row joined by commas,
  followed by one line per row, which is its cells joined by commas; a cell holding a string
  with a comma or a double quote is that string between double quotes with each double
  quote inside doubled. The list \<open>[{a: "x,y", b: 1}]\<close> gives the header \<open>a,b\<close> and the row
  \<open>"x,y",1\<close>.\<close>

theorem exportToCSV_csv_text:
  assumes "data \<noteq> []" and "list_all isRowObject data"
  shows "(\<exists>dl rows.
           exportToCSV today data filename = Inr (Some dl) \<and>
           blobContent dl =
             joinWith [newline] (joinWith '','' (map fst (rowProps (hd data))) # rows) \<and>
           length rows = length data \<and>
           (\<forall>i < length data. \<exists>cells.
              rows ! i = joinWith '','' cells \<and>
              length cells = length (rowProps (hd data)) \<and>
              (\<forall>j < length cells. \<forall>s.
                 propValue (data ! i) (fst (rowProps (hd data) ! j)) = JString s \<and>
                 (CHR '','' \<in> set s \<or> dquote \<in> set s) \<longrightarrow> cells ! j = quoted s))) \<and>
         map_sum id (map_option blobContent) (exportToCSV today [sampleRow] filename) =
           Inr (Some (''a,b'' @ [newline] @ [dquote] @ ''x,y'' @ [dquote] @ '',1''))"
proof
  from assms(1) obtain first rest where d: "data = first # rest" by (cases data) auto
  let ?headers = "map fst (rowProps first)"
  let ?rows = "map (\<lambda>r. joinWith '','' (map (cellText r) ?headers)) data"
  let ?dl = "\<lparr> blobContent = joinWith [newline] (joinWith '','' ?headers # ?rows),
               blobType = ''text/csv'',
               downloadName = filename @ ''-'' @ today @ ''.csv'' \<rparr>"
  have e: "exportToCSV today data filename = Inr (Some ?dl)"
    using exportToCSV_objects [of first rest today filename] assms(2) unfolding d by simp
  have cells: "\<exists>cells. ?rows ! i = joinWith '','' cells \<and>
              length cells = length (rowProps (hd data)) \<and>
              (\<forall>j < length cells. \<forall>s.
                 propValue (data ! i) (fst (rowProps (hd data) ! j)) = JString s \<and>
                 (CHR '','' \<in> set s \<or> dquote \<in> set s) \<longrightarrow> cells ! j = quoted s)"
    if "i < length data" for i
  proof (intro exI conjI)
    show "?rows ! i = joinWith '','' (map (cellText (data ! i)) ?headers)"
      using that by simp
    show "length (map (cellText (data ! i)) ?headers) = length (rowProps (hd data))"
      by (simp add: d)
    show "\<forall>j < length (map (cellText (data ! i)) ?headers). \<forall>s.
            propValue (data ! i) (fst (rowProps (hd data) ! j)) = JString s \<and>
            (CHR '','' \<in> set s \<or> dquote \<in> set s) \<longrightarrow>
            map (cellText (data ! i)) ?headers ! j = quoted s"
      by (auto simp: d cellText_def)
  qed
  show "\<exists>dl rows.
           exportToCSV today data filename = Inr (Some dl) \<and>
           blobContent dl =
             joinWith [newline] (joinWith '','' (map fst (rowProps (hd data))) # rows) \<and>
           length rows = length data \<and>
           (\<forall>i < length data. \<exists>cells.
              rows ! i = joinWith '','' cells \<and>
              length cells = length (rowProps (hd data)) \<and>
              (\<forall>j < length cells. \<forall>s.
                 propValue (data ! i) (fst (rowProps (hd data) ! j)) = JString s \<and>
                 (CHR '','' \<in> set s \<or> dquote \<in> set s) \<longrightarrow> cells ! j = quoted s))"
    apply (rule exI [of _ ?dl], rule exI [of _ ?rows])
    using e cells by (simp add: d)
next
  show "map_sum id (map_option blobContent) (exportToCSV today [sampleRow] filename) =
           Inr (Some (''a,b'' @ [newline] @ [dquote] @ ''x,y'' @ [dquote] @ '',1''))"
    by (simp add: exportToCSV_sampleRow)
qed

theorem exportToCSV_csv_text_witness:
  "[sampleRow] \<noteq> [] \<and> list_all isRowObject [sampleRow] \<and>
   (\<exists>dl rows.
      exportToCSV ''2024-05-01'' [sampleRow] ''sessions'' = Inr (Some dl) \<and>
      blobContent dl = joinWith [newline] (''a,b'' # rows) \<and>
      rows = [quoted ''x,y'' @ '',1''])"
proof -
  have h1: "[sampleRow] \<noteq> []" by simp
  have h2: "list_all isRowObject [sampleRow]" by (simp add: sampleRow_def)
  have ex: "exportToCSV ''2024-05-01'' [sampleRow] ''sessions'' =
     Inr (Some \<lparr> blobContent = ''a,b'' @ [newline] @ [dquote] @ ''x,y'' @ [dquote] @ '',1'',
                 blobType = ''text/csv'',
                 downloadName = ''sessions'' @ ''-'' @ ''2024-05-01'' @ ''.csv'' \<rparr>)"
    by (rule exportToCSV_sampleRow)
  from exportToCSV_csv_text [OF h1 h2, of "''2024-05-01''" "''sessions''"] h1 h2 ex
  show ?thesis by (simp add: quoted_def dquote_def)
qed

text \<open>C9: \<open>exportToCSV\<close> on an empty array returns at once: no CSV text is built, no
  download is triggered, and nothing is thrown.\<close>

theorem exportToCSV_empty:
  "exportToCSV today [] filename = Inr None"
  by (simp add: exportToCSV_def)

subsection \<open>The session recorder\<close>

lemmas effect_defs = returnE_def bindE_def tryCatch_def getRecorder_def setRecorder_def
  consoleWrite_def addSessionDoc_def addStepDoc_def updateSessionDoc_def

lemma updateSession_returns: "fst (updateSession upd s) = Inr ()"
  by (simp add: updateSession_def effect_defs Let_def split: option.splits)

lemma initializeSession_returns: "fst (initializeSession ua now s) = Inr ()"
  by (simp add: initializeSession_def effect_defs Let_def)

lemma trackStepEnter_returns: "fst (trackStepEnter n name now s) = Inr ()"
  by (simp add: trackStepEnter_def effect_defs Let_def)

lemma trackStepAnswer_returns: "fst (trackStepAnswer n name ans now s) = Inr ()"
  by (simp add: trackStepAnswer_def effect_defs Let_def)

lemma trackStepExit_returns: "fst (trackStepExit n name reason now s) = Inr ()"
  by (simp add: trackStepExit_def updateSession_def effect_defs Let_def split: option.splits)

lemma updateFormData_returns: "fst (updateFormData fd now s) = Inr ()"
  by (simp add: updateFormData_def updateSession_def effect_defs Let_def split: option.splits)

lemma initializeSession_offline:
  assumes "\<forall>k. \<not> writeSucceeds s k"
  shows "store (snd (initializeSession ua now s)) = store s \<and>
         console (snd (initializeSession ua now s)) = console s @ [''Error initializing session:'']"
  using assms by (simp add: initializeSession_def effect_defs Let_def)

lemma trackStepEnter_offline:
  assumes "\<forall>k. \<not> writeSucceeds s k"
  shows "store (snd (trackStepEnter n name now s)) = store s \<and>
         console (snd (trackStepEnter n name now s)) = console s @ [''Error tracking step enter:'']"
  using assms by (simp add: trackStepEnter_def effect_defs Let_def)

lemma trackStepAnswer_offline:
  assumes "\<forall>k. \<not> writeSucceeds s k"
  shows "store (snd (trackStepAnswer n name ans now s)) = store s \<and>
         console (snd (trackStepAnswer n name ans now s)) = console s @ [''Error tracking step answer:'']"
  using assms by (simp add: trackStepAnswer_def effect_defs Let_def)

lemma updateSession_offline:
  assumes "\<forall>k. \<not> writeSucceeds s k"
  shows "store (snd (updateSession upd s)) = store s \<and>
         console (snd (updateSession upd s)) =
           console s @ [if sessionDocId (recorder s) = None
                        then ''Session document ID not available''
                        else ''Error updating session:'']"
  using assms by (simp add: updateSession_def effect_defs Let_def split: option.splits)

lemma trackStepExit_offline:
  assumes "\<forall>k. \<not> writeSucceeds s k"
  shows "store (snd (trackStepExit n name reason now s)) = store s \<and>
         console (snd (trackStepExit n name reason now s)) =
           console s @ [''Error tracking step exit:'',
                        if sessionDocId (recorder s) = None
                        then ''Session document ID not available''
                        else ''Error updating session:'']"
  using assms by (simp add: trackStepExit_def updateSession_def effect_defs Let_def split: option.splits)

lemma updateFormData_offline:
  assumes "\<forall>k. \<not> writeSucceeds s k"
  shows "store (snd (updateFormData fd now s)) = store s \<and>
         console (snd (updateFormData fd now s)) =
           console s @ [if sessionDocId (recorder s) = None
                        then ''Session document ID not available''
                        else ''Error updating session:'']"
  using assms by (simp add: updateFormData_def updateSession_def effect_defs Let_def split: option.splits)

text \<open>C5: every operation of the recorder (\<open>initializeSession\<close>, \<open>trackStepEnter\<close>,
  \<open>trackStepAnswer\<close>, \<open>trackStepExit\<close>, \<open>updateFormData\<close>) returns normally, whatever the
  store does with its writes; when the store rejects every write, the store is left as it
  was and the failure shows only as lines on the console.\<close>

theorem recorder_swallows_store_failures:
  "fst (initializeSession ua now s) = Inr () \<and>
   fst (trackStepEnter n name now s) = Inr () \<and>
   fst (trackStepAnswer n name ans now s) = Inr () \<and>
   fst (trackStepExit n name reason now s) = Inr () \<and>
   fst (updateFormData fd now s) = Inr () \<and>
   ((\<forall>k. \<not> writeSucceeds s k) \<longrightarrow>
      store (snd (initializeSession ua now s)) = store s \<and>
      console (snd (initializeSession ua now s)) = console s @ [''Error initializing session:''] \<and>
      store (snd (trackStepEnter n name now s)) = store s \<and>
      console (snd (trackStepEnter n name now s)) = console s @ [''Error tracking step enter:''] \<and>
      store (snd (trackStepAnswer n name ans now s)) = store s \<and>
      console (snd (trackStepAnswer n name ans now s)) =
        console s @ [''Error tracking step answer:''] \<and>
      store (snd (trackStepExit n name reason now s)) = store s \<and>
      console (snd (trackStepExit n name reason now s)) =
        console s @ [''Error tracking step exit:'',
                     if sessionDocId (recorder s) = None
                     then ''Session document ID not available''
                     else ''Error updating session:''] \<and>
      store (snd (updateFormData fd now s)) = store s \<and>
      console (snd (updateFormData fd now s)) =
        console s @ [if sessionDocId (recorder s) = None
                     then ''Session document ID not available''
                     else ''Error updating session:''])"
  by (simp add: initializeSession_returns trackStepEnter_returns trackStepAnswer_returns
      trackStepExit_returns updateFormData_returns
      initializeSession_offline trackStepEnter_offline trackStepAnswer_offline
      trackStepExit_offline updateFormData_offline)

theorem recorder_swallows_store_failures_witness:
  "(\<forall>k. \<not> writeSucceeds offlineSystem k) \<and>
   fst (trackStepExit 2 ''Late Payments Check'' Abandoned 1499 offlineSystem) = Inr () \<and>
   store (snd (trackStepExit 2 ''Late Payments Check'' Abandoned 1499 offlineSystem)) =
     store offlineSystem \<and>
   console (snd (trackStepExit 2 ''Late Payments Check'' Abandoned 1499 offlineSystem)) =
     [''Error tracking step exit:'', ''Error updating session:'']"
proof -
  have off: "\<forall>k. \<not> writeSucceeds offlineSystem k"
    by (simp add: offlineSystem_def)
  have c: "console offlineSystem = []" and d: "sessionDocId (recorder offlineSystem) = Some 7"
    by (simp_all add: offlineSystem_def)
  from recorder_swallows_store_failures
         [of "''ua''" 1499 offlineSystem 2 "''Late Payments Check''" "''yes''" Abandoned "[]"]
       off c d
  show ?thesis by simp
qed

end
